theory Spec2Isabelle
  imports Complex_Main "HOL-Library.Multiset" "HOL-Library.Log_Nat"
begin

section \<open>Python floats\<close>

text \<open>
  A Python \<open>float\<close> is an IEEE 754 binary64 value. \<open>Finite neg m e\<close> stands for
  \<open>(-1)^neg * m * 2^e\<close>; \<open>Infinity neg\<close> for \<open>inf\<close> and \<open>-inf\<close>; \<open>NaN\<close> for
  every not-a-number (its sign and payload are not observable in this program).
  The canonical representatives of the finite doubles are described by \<open>is_double\<close>:
  a 53-bit mantissa with exponent between -1074 and 971, the mantissa below \<open>2^52\<close>
  only at the least exponent (subnormals and the two zeros).
\<close>

datatype pyfloat = Finite bool int int | Infinity bool | NaN

definition float_value :: "bool \<Rightarrow> int \<Rightarrow> int \<Rightarrow> rat" where
  "float_value neg m e = (if neg then - (of_int m * 2 powi e) else of_int m * 2 powi e)"

definition is_double :: "pyfloat \<Rightarrow> bool" where
  "is_double x =
     (case x of
        Finite neg m e \<Rightarrow>
          0 \<le> m \<and> m < 2 ^ 53 \<and> - 1074 \<le> e \<and> e \<le> 971 \<and> (2 ^ 52 \<le> m \<or> e = - 1074)
      | _ \<Rightarrow> True)"

text \<open>The comparisons \<open><\<close> and \<open><=\<close> of floats: false whenever an operand is NaN.\<close>

fun py_lt :: "pyfloat \<Rightarrow> pyfloat \<Rightarrow> bool" where
  "py_lt NaN y = False"
| "py_lt x NaN = False"
| "py_lt (Infinity s) (Infinity t) = (s \<and> \<not> t)"
| "py_lt (Infinity s) (Finite b n f) = s"
| "py_lt (Finite a m e) (Infinity t) = (\<not> t)"
| "py_lt (Finite a m e) (Finite b n f) = (float_value a m e < float_value b n f)"

fun py_le :: "pyfloat \<Rightarrow> pyfloat \<Rightarrow> bool" where
  "py_le NaN y = False"
| "py_le x NaN = False"
| "py_le (Infinity s) (Infinity t) = (s \<or> \<not> t)"
| "py_le (Infinity s) (Finite b n f) = s"
| "py_le (Finite a m e) (Infinity t) = (\<not> t)"
| "py_le (Finite a m e) (Finite b n f) = (float_value a m e \<le> float_value b n f)"

section \<open>Text\<close>

text \<open>
  A Python \<open>str\<close> is modelled as a \<open>string\<close> whose characters are the code points
  below 256. \<open>is_space\<close> is \<open>str.isspace\<close> on that range, \<open>strip\<close> is \<open>str.strip()\<close>.
\<close>

definition is_space :: "char \<Rightarrow> bool" where
  "is_space c = (of_char c \<in> {9, 10, 11, 12, 13, 28, 29, 30, 31, 32, 133, 160 :: nat})"

definition strip :: "string \<Rightarrow> string" where
  "strip s = rev (dropWhile is_space (rev (dropWhile is_space s)))"

definition is_digit :: "char \<Rightarrow> bool" where
  "is_digit c = (48 \<le> (of_char c :: nat) \<and> (of_char c :: nat) \<le> 57)"

definition digit_val :: "char \<Rightarrow> int" where
  "digit_val c = of_char c - 48"

definition digit_char :: "int \<Rightarrow> char" where
  "digit_char d = char_of (48 + d)"

definition int_of_digits :: "string \<Rightarrow> int" where
  "int_of_digits s = foldl (\<lambda>a c. 10 * a + digit_val c) 0 s"

definition ascii_lower :: "char \<Rightarrow> char" where
  "ascii_lower c =
     (if 65 \<le> (of_char c :: nat) \<and> (of_char c :: nat) \<le> 90 then char_of (of_char c + 32 :: nat)
      else c)"

text \<open>\<open>str(n)\<close> for an integer: decimal digits, a minus sign when negative.\<close>

function str_digits :: "int \<Rightarrow> string" where
  "str_digits n =
     (if n < 10 then [digit_char n] else str_digits (n div 10) @ [digit_char (n mod 10)])"
  by pat_completeness auto
termination
  by (relation "measure nat") auto

declare str_digits.simps [simp del]

definition str_int :: "int \<Rightarrow> string" where
  "str_int i = (if i < 0 then CHR ''-'' # str_digits (- i) else str_digits i)"

text \<open>
  \<open>repr\<close> of a \<open>str\<close>, with which the message of an \<open>OSError\<close> raised by \<open>open\<close>
  quotes the path: double quotes when the text has a single quote and no double quote,
  single quotes otherwise; backslash escapes for the quote, the backslash, tab, newline
  and carriage return, and a hexadecimal escape for the other characters that are not
  printable.
\<close>

definition hex_digit :: "nat \<Rightarrow> char" where
  "hex_digit d = (if d < 10 then char_of (48 + d) else char_of (87 + d))"

definition printable :: "char \<Rightarrow> bool" where
  "printable c =
     (let n = (of_char c :: nat) in (32 \<le> n \<and> n \<le> 126) \<or> (161 \<le> n \<and> n \<noteq> 173))"

definition escape_char :: "char \<Rightarrow> char \<Rightarrow> string" where
  "escape_char quote c =
     (if c = quote \<or> c = CHR 0x5C then [CHR 0x5C, c]
      else if c = CHR 0x09 then [CHR 0x5C, CHR ''t'']
      else if c = CHR 0x0A then [CHR 0x5C, CHR ''n'']
      else if c = CHR 0x0D then [CHR 0x5C, CHR ''r'']
      else if printable c then [c]
      else [CHR 0x5C, CHR ''x'', hex_digit (of_char c div 16), hex_digit (of_char c mod 16)])"

definition str_repr :: "string \<Rightarrow> string" where
  "str_repr s =
     (let quote = (if CHR 0x27 \<in> set s \<and> CHR 0x22 \<notin> set s then CHR 0x22 else CHR 0x27)
      in quote # concat (map (escape_char quote) s) @ [quote])"

section \<open>Exceptions\<close>

text \<open>
  The exceptions this program can meet, each with its message \<open>str(e)\<close>.
  \<open>OSError\<close> stands for an instance of \<open>OSError\<close> that is of none of the three
  subclasses named before it; \<open>os_error\<close> holds of the instances of \<open>OSError\<close>, of
  which \<open>IOError\<close> is another name.
\<close>

datatype pyexc =
    FileNotFoundError string
  | PermissionError string
  | IsADirectoryError string
  | OSError string
  | ValueError string
  | OverflowError string
  | IndexError string

definition os_error :: "pyexc \<Rightarrow> bool" where
  "os_error e =
     (case e of
        FileNotFoundError msg \<Rightarrow> True
      | PermissionError msg \<Rightarrow> True
      | IsADirectoryError msg \<Rightarrow> True
      | OSError msg \<Rightarrow> True
      | _ \<Rightarrow> False)"

section \<open>Text to float\<close>

text \<open>
  Rounding a non-negative rational to the nearest double, ties to the even mantissa,
  as the conversion of a decimal literal does. \<open>ilog2 r\<close> is the exponent \<open>k\<close> with
  \<open>2^k <= r < 2^(k+1)\<close>. A result beyond the largest double is an infinity
  (\<open>float('1e400')\<close> is \<open>inf\<close>).
\<close>

definition ilog2 :: "rat \<Rightarrow> int" where
  "ilog2 r =
     (let (a, b) = quotient_of r; k = bitlen a - bitlen b
      in if 2 powi k \<le> r then k else k - 1)"

definition round_half_even :: "rat \<Rightarrow> int" where
  "round_half_even r =
     (let q = \<lfloor>r\<rfloor>; f = r - of_int q
      in if f < 1 / 2 then q else if 1 / 2 < f then q + 1 else if even q then q else q + 1)"

definition round_double :: "bool \<Rightarrow> rat \<Rightarrow> pyfloat" where
  "round_double neg r =
     (if r = 0 then Finite neg 0 (- 1074)
      else
        let e = max (ilog2 r - 52) (- 1074);
            m = round_half_even (r / 2 powi e)
        in if m = 2 ^ 53 then (if 971 < e + 1 then Infinity neg else Finite neg (2 ^ 52) (e + 1))
           else if 971 < e then Infinity neg
           else Finite neg m e)"

text \<open>
  Underscores in a numeric literal: allowed only between two digits; they are removed
  before the number is read. \<open>prev\<close> is the character before the current one.
\<close>

fun strip_underscores :: "char \<Rightarrow> string \<Rightarrow> string option" where
  "strip_underscores prev [] = (if prev = CHR ''_'' then None else Some [])"
| "strip_underscores prev (c # cs) =
     (if c = CHR ''_'' then (if is_digit prev then strip_underscores c cs else None)
      else if prev = CHR ''_'' \<and> \<not> is_digit c then None
      else map_option ((#) c) (strip_underscores c cs))"

text \<open>The exponent after \<open>e\<close>: an optional sign and at least one digit.\<close>

definition parse_exponent :: "string \<Rightarrow> int option" where
  "parse_exponent s =
     (let neg = (s \<noteq> [] \<and> hd s = CHR ''-'');
          ds = (if s \<noteq> [] \<and> (hd s = CHR ''-'' \<or> hd s = CHR ''+'') then tl s else s)
      in if ds \<noteq> [] \<and> list_all is_digit ds
         then Some (if neg then - int_of_digits ds else int_of_digits ds)
         else None)"

text \<open>
  An unsigned decimal literal: digits, an optional point and digits (a digit on at least
  one side of the point), an optional exponent. The result \<open>(n, ex)\<close> stands for
  \<open>n * 10^ex\<close>.
\<close>

definition parse_decimal :: "string \<Rightarrow> (int \<times> int) option" where
  "parse_decimal s =
     (let ip = takeWhile is_digit s;
          r1 = dropWhile is_digit s;
          has_point = (r1 \<noteq> [] \<and> hd r1 = CHR ''.'');
          fp = (if has_point then takeWhile is_digit (tl r1) else []);
          r2 = (if has_point then dropWhile is_digit (tl r1) else r1);
          n = int_of_digits (ip @ fp)
      in if ip = [] \<and> fp = [] then None
         else if r2 = [] then Some (n, - int (length fp))
         else if hd r2 = CHR ''e'' \<or> hd r2 = CHR ''E'' then
           (case parse_exponent (tl r2) of
              None \<Rightarrow> None
            | Some ex \<Rightarrow> Some (n, ex - int (length fp)))
         else None)"

text \<open>
  What \<open>float\<close> does with whitespace. A text that is not all ASCII is first turned
  into ASCII: a character below 127 stays, a whitespace character from 127 on becomes
  a space, and at any other character the text ends with a question mark. Then the
  characters tab, newline, vertical tab, form feed, carriage return and space are
  removed from both ends.
\<close>

definition c_space :: "char \<Rightarrow> bool" where
  "c_space c = (of_char c \<in> {9, 10, 11, 12, 13, 32 :: nat})"

fun to_ascii :: "string \<Rightarrow> string" where
  "to_ascii [] = []"
| "to_ascii (c # cs) =
     (if (of_char c :: nat) < 127 then c # to_ascii cs
      else if is_space c then CHR '' '' # to_ascii cs
      else ''?'')"

definition float_strip :: "string \<Rightarrow> string" where
  "float_strip s =
     (let t = (if list_all (\<lambda>c. (of_char c :: nat) < 128) s then s else to_ascii s)
      in rev (dropWhile c_space (rev (dropWhile c_space t))))"

text \<open>
  \<open>float(text)\<close> for a \<open>str\<close>; \<open>None\<close> stands for the \<open>ValueError\<close> it raises.
  After the whitespace at both ends come an optional sign and either one of the
  words \<open>inf\<close>, \<open>infinity\<close>, \<open>nan\<close> in any case or a decimal literal.
\<close>

definition py_float :: "string \<Rightarrow> pyfloat option" where
  "py_float text =
     (case strip_underscores (CHR 0x00) (float_strip text) of
        None \<Rightarrow> None
      | Some s \<Rightarrow>
          let neg = (s \<noteq> [] \<and> hd s = CHR ''-'');
              body = (if s \<noteq> [] \<and> (hd s = CHR ''-'' \<or> hd s = CHR ''+'') then tl s else s);
              word = map ascii_lower body
          in if word = ''inf'' \<or> word = ''infinity'' then Some (Infinity neg)
             else if word = ''nan'' then Some NaN
             else (case parse_decimal body of
                     None \<Rightarrow> None
                   | Some (n, ex) \<Rightarrow> Some (round_double neg (of_int n * 10 powi ex))))"

section \<open>Float to text\<close>

text \<open>\<open>number.is_integer()\<close> and \<open>int(number)\<close>.\<close>

definition is_integer :: "pyfloat \<Rightarrow> bool" where
  "is_integer x =
     (case x of
        Finite neg m e \<Rightarrow> of_int \<lfloor>float_value neg m e\<rfloor> = float_value neg m e
      | _ \<Rightarrow> False)"

definition py_int :: "pyfloat \<Rightarrow> pyexc + int" where
  "py_int x =
     (case x of
        Finite neg m e \<Rightarrow>
          (let v = float_value neg m e in Inr (if 0 \<le> v then \<lfloor>v\<rfloor> else \<lceil>v\<rceil>))
      | Infinity neg \<Rightarrow> Inl (OverflowError ''cannot convert float infinity to integer'')
      | NaN \<Rightarrow> Inl (ValueError ''cannot convert float NaN to integer''))"

text \<open>
  \<open>repr\<close> of a float, which is also its \<open>str\<close> and its rendering in an f-string: the
  shortest string of decimal digits that reads back as the same double, the nearest to
  the double's value when there are several (ties to the even last digit).
  \<open>exact_decimal m e = (D, t)\<close> writes the value \<open>m * 2^e\<close> as \<open>D / 10^t\<close>.
  \<open>shortest_digits x D t j\<close> drops the last \<open>j\<close> digits of \<open>D\<close> and, when neither the
  number cut there nor the next one above reads back as \<open>x\<close>, keeps one digit more;
  the result \<open>(c, j)\<close> stands for \<open>c * 10^j / 10^t\<close>.
\<close>

definition exact_decimal :: "int \<Rightarrow> int \<Rightarrow> int \<times> nat" where
  "exact_decimal m e =
     (if 0 \<le> e then (m * 2 ^ nat e, 0) else (m * 5 ^ nat (- e), nat (- e)))"

fun shortest_digits :: "pyfloat \<Rightarrow> int \<Rightarrow> nat \<Rightarrow> nat \<Rightarrow> int \<times> nat" where
  "shortest_digits x D t 0 = (D, 0)"
| "shortest_digits x D t (Suc j) =
     (let u = 10 ^ Suc j; lo = D div u; rm = D mod u;
          ok_lo = (round_double False (of_int (lo * u) / 10 ^ t) = x);
          ok_hi = (round_double False (of_int ((lo + 1) * u) / 10 ^ t) = x)
      in if ok_lo \<and> ok_hi then
           (if u < 2 * rm \<or> (2 * rm = u \<and> odd lo) then (lo + 1, Suc j) else (lo, Suc j))
         else if ok_lo then (lo, Suc j)
         else if ok_hi then (lo + 1, Suc j)
         else shortest_digits x D t j)"

text \<open>
  The layout of the digits \<open>ds\<close> with the decimal point before digit number \<open>decpt\<close>:
  exponent notation when \<open>decpt <= -4\<close> or \<open>decpt > 16\<close>, positional otherwise, with
  \<open>.0\<close> appended to a whole number.
\<close>

definition format_repr :: "string \<Rightarrow> int \<Rightarrow> string" where
  "format_repr ds decpt =
     (if decpt \<le> - 4 \<or> 16 < decpt then
        hd ds # (if tl ds = [] then [] else CHR ''.'' # tl ds) @ ''e''
          @ (if decpt - 1 < 0 then ''-'' else ''+'')
          @ (if \<bar>decpt - 1\<bar> < 10 then ''0'' else [])
          @ str_digits \<bar>decpt - 1\<bar>
      else if decpt \<le> 0 then ''0.'' @ replicate (nat (- decpt)) (CHR ''0'') @ ds
      else if int (length ds) \<le> decpt then
        ds @ replicate (nat decpt - length ds) (CHR ''0'') @ ''.0''
      else take (nat decpt) ds @ ''.'' @ drop (nat decpt) ds)"

definition float_repr :: "pyfloat \<Rightarrow> string" where
  "float_repr x =
     (case x of
        NaN \<Rightarrow> ''nan''
      | Infinity neg \<Rightarrow> (if neg then ''-inf'' else ''inf'')
      | Finite neg m e \<Rightarrow>
          (if neg then ''-'' else []) @
          (if m = 0 then ''0.0''
           else
             let (D, t) = exact_decimal m e;
                 (c, j) = shortest_digits (Finite False m e) D t (length (str_digits D) - 1);
                 ds0 = str_digits c
             in format_repr (rev (dropWhile (\<lambda>ch. ch = CHR ''0'') (rev ds0)))
                  (int (length ds0) + int j - int t)))"

section \<open>Files\<close>

text \<open>
  The file system as the program sees it, one node per path: a regular file with its
  text (\<open>Regular\<close>: readable and writable; \<open>ReadOnly\<close>; \<open>NoSpace\<close>: on a device with
  no space left, so that it can be opened and emptied but nothing can be written to
  it), a file that the user may not open (\<open>Unreadable\<close>), a directory, a path that
  \<open>open\<close> refuses with another \<open>OSError\<close>, whose message it carries (\<open>Faulty\<close>: a
  component that is not a directory, a name too long, ...), a free name in an existing
  directory (\<open>Absent\<close>), and a name whose directory does not exist (\<open>NoParent\<close>).
  The text of a file is its decoded content; an output file is written with the
  line terminator \<open>\n\<close>. The paths are those of the command line.
\<close>

datatype node =
    Regular string
  | ReadOnly string
  | NoSpace string
  | Unreadable
  | Directory
  | Faulty string
  | Absent
  | NoParent

type_synonym filesystem = "string \<Rightarrow> node"

definition open_read :: "filesystem \<Rightarrow> string \<Rightarrow> pyexc + string" where
  "open_read fs path =
     (case fs path of
        Regular content \<Rightarrow> Inr content
      | ReadOnly content \<Rightarrow> Inr content
      | NoSpace content \<Rightarrow> Inr content
      | Unreadable \<Rightarrow> Inl (PermissionError (''[Errno 13] Permission denied: '' @ str_repr path))
      | Directory \<Rightarrow> Inl (IsADirectoryError (''[Errno 21] Is a directory: '' @ str_repr path))
      | Faulty msg \<Rightarrow> Inl (OSError msg)
      | Absent \<Rightarrow>
          Inl (FileNotFoundError (''[Errno 2] No such file or directory: '' @ str_repr path))
      | NoParent \<Rightarrow>
          Inl (FileNotFoundError (''[Errno 2] No such file or directory: '' @ str_repr path)))"

text \<open>Opening for writing creates the file or empties it.\<close>

definition open_write :: "filesystem \<Rightarrow> string \<Rightarrow> pyexc + filesystem" where
  "open_write fs path =
     (case fs path of
        Regular content \<Rightarrow> Inr (fs(path := Regular []))
      | Absent \<Rightarrow> Inr (fs(path := Regular []))
      | NoSpace content \<Rightarrow> Inr (fs(path := NoSpace []))
      | ReadOnly content \<Rightarrow>
          Inl (PermissionError (''[Errno 13] Permission denied: '' @ str_repr path))
      | Unreadable \<Rightarrow> Inl (PermissionError (''[Errno 13] Permission denied: '' @ str_repr path))
      | Directory \<Rightarrow> Inl (IsADirectoryError (''[Errno 21] Is a directory: '' @ str_repr path))
      | Faulty msg \<Rightarrow> Inl (OSError msg)
      | NoParent \<Rightarrow>
          Inl (FileNotFoundError (''[Errno 2] No such file or directory: '' @ str_repr path)))"

text \<open>
  Reading in text mode: \<open>\r\n\<close> and \<open>\r\<close> become \<open>\n\<close>, and iterating over the
  file gives its lines, each with its \<open>\n\<close> (the last one may have none).
\<close>

fun universal_newlines :: "string \<Rightarrow> string" where
  "universal_newlines [] = []"
| "universal_newlines [c] = (if c = CHR 0x0D then [CHR 0x0A] else [c])"
| "universal_newlines (c # d # cs) =
     (if c = CHR 0x0D \<and> d = CHR 0x0A then CHR 0x0A # universal_newlines cs
      else if c = CHR 0x0D then CHR 0x0A # universal_newlines (d # cs)
      else c # universal_newlines (d # cs))"

fun file_lines :: "string \<Rightarrow> string list" where
  "file_lines [] = []"
| "file_lines (c # cs) =
     (if c = CHR 0x0A then [c] # file_lines cs
      else (case file_lines cs of [] \<Rightarrow> [[c]] | l # ls \<Rightarrow> (c # l) # ls))"

section \<open>The reader\<close>

text \<open>The loop of \<open>read_numbers_from_file\<close> over the lines left, with the number of
  the next line and the numbers read so far.\<close>

definition invalid_number_message :: "string \<Rightarrow> nat \<Rightarrow> string" where
  "invalid_number_message line line_num =
     ''Invalid number '' @ [CHR 0x27] @ line @ [CHR 0x27] @ '' on line '' @ str_int (int line_num)"

fun read_loop :: "nat \<Rightarrow> string list \<Rightarrow> pyfloat list \<Rightarrow> pyexc + pyfloat list" where
  "read_loop line_num [] numbers = Inr numbers"
| "read_loop line_num (line # rest) numbers =
     (let line = strip line in
      if line \<noteq> [] then
        (case py_float line of
           Some number \<Rightarrow> read_loop (Suc line_num) rest (numbers @ [number])
         | None \<Rightarrow> Inl (ValueError (invalid_number_message line line_num)))
      else read_loop (Suc line_num) rest numbers)"

definition read_numbers_from_file :: "filesystem \<Rightarrow> string \<Rightarrow> pyexc + pyfloat list" where
  "read_numbers_from_file fs filename =
     (case open_read fs filename of
        Inl (FileNotFoundError msg) \<Rightarrow>
          Inl (FileNotFoundError (''File '' @ [CHR 0x27] @ filename @ [CHR 0x27] @ '' not found''))
      | Inl e \<Rightarrow> Inl e
      | Inr content \<Rightarrow> read_loop 1 (file_lines (universal_newlines content)) [])"

text \<open>
  The words of the specification about the reader: the lines of the input with their
  surrounding whitespace removed; the non-blank ones among them (non-empty after the
  removal); and the non-blank ones that are not numbers, each with its line number,
  counted from 1.
\<close>

definition stripped_lines :: "string \<Rightarrow> string list" where
  "stripped_lines content = map strip (file_lines (universal_newlines content))"

definition nonblank_lines :: "string \<Rightarrow> string list" where
  "nonblank_lines content = filter (\<lambda>l. l \<noteq> []) (stripped_lines content)"

definition bad_lines :: "string \<Rightarrow> (nat \<times> string) list" where
  "bad_lines content =
     filter (\<lambda>(k, l). l \<noteq> [] \<and> py_float l = None)
       (zip [1..<Suc (length (stripped_lines content))] (stripped_lines content))"

section \<open>The sorter\<close>

text \<open>
  \<open>sorted(numbers)\<close> is the built-in stable sort, which compares elements with \<open><\<close>
  only. It is modelled by the stable insertion sort that takes the elements from left
  to right and puts each one behind every element of the sorted prefix that it is not
  smaller than. On every list on which \<open><\<close> is a strict weak order (every list
  without NaN) a stable sort has one possible result, so this is the built-in's result.
  On a list with a NaN the built-in's arrangement depends on its algorithm, which
  differs between versions of the interpreter, and may differ from the one of this
  function: of such a list the theorems below state only what holds of the built-in
  too (the result is a permutation; a list without a descent between neighbours, the
  built-in's single run, is returned as it is).
\<close>

fun insert_sorted :: "pyfloat \<Rightarrow> pyfloat list \<Rightarrow> pyfloat list" where
  "insert_sorted x [] = [x]"
| "insert_sorted x (y # ys) = (if py_lt x y then x # y # ys else y # insert_sorted x ys)"

definition py_sorted :: "pyfloat list \<Rightarrow> pyfloat list" where
  "py_sorted xs = foldl (\<lambda>acc x. insert_sorted x acc) [] xs"

definition sort_numbers :: "pyfloat list \<Rightarrow> pyfloat list" where
  "sort_numbers numbers = py_sorted numbers"

text \<open>Non-descending order as the specification words it: every adjacent pair \<open>(a, b)\<close>
  satisfies \<open>a <= b\<close>.\<close>

fun adjacent_le :: "pyfloat list \<Rightarrow> bool" where
  "adjacent_le (a # b # xs) = (py_le a b \<and> adjacent_le (b # xs))"
| "adjacent_le xs = True"

section \<open>The writer\<close>

text \<open>
  The text that the body of the loop of \<open>write_numbers_to_file\<close> writes for one
  number, or the exception it raises. \<open>file_write full out text\<close> is
  \<open>file.write(text)\<close> on a file that holds \<open>out\<close>: on a device with no space left
  (\<open>full\<close>) writing a non-empty text fails with an \<open>OSError\<close> (raised by the write or
  by the close that flushes it: either way it leaves \<open>write_numbers_to_file\<close> from
  inside the \<open>with\<close> statement). \<open>write_loop\<close> is the loop over the numbers left, with
  the text written so far; it ends with the exception raised, if any.
\<close>

definition line_text :: "pyfloat \<Rightarrow> pyexc + string" where
  "line_text number =
     (if is_integer number then
        (case py_int number of
           Inl e \<Rightarrow> Inl e
         | Inr i \<Rightarrow> Inr (str_int i @ [CHR 0x0A]))
      else Inr (float_repr number @ [CHR 0x0A]))"

definition file_write :: "bool \<Rightarrow> string \<Rightarrow> string \<Rightarrow> pyexc + string" where
  "file_write full out text =
     (if full \<and> text \<noteq> [] then Inl (OSError ''[Errno 28] No space left on device'')
      else Inr (out @ text))"

fun write_loop :: "bool \<Rightarrow> pyfloat list \<Rightarrow> string \<Rightarrow> pyexc option \<times> string" where
  "write_loop full [] out = (None, out)"
| "write_loop full (number # rest) out =
     (case line_text number of
        Inl e \<Rightarrow> (Some e, out)
      | Inr text \<Rightarrow>
          (case file_write full out text of
             Inl e \<Rightarrow> (Some e, out)
           | Inr out' \<Rightarrow> write_loop full rest out'))"

definition on_full_device :: "node \<Rightarrow> bool" where
  "on_full_device n = (case n of NoSpace content \<Rightarrow> True | _ \<Rightarrow> False)"

text \<open>After the \<open>with\<close> statement the file holds what was written; on a failure it is
  left as it is then.\<close>

definition write_numbers_to_file ::
  "pyfloat list \<Rightarrow> string \<Rightarrow> filesystem \<Rightarrow> pyexc option \<times> filesystem" where
  "write_numbers_to_file numbers filename fs =
     (case open_write fs filename of
        Inl e \<Rightarrow> (Some e, fs)
      | Inr fs' \<Rightarrow>
          (let full = on_full_device (fs' filename);
               (err, out) = write_loop full numbers []
           in (err, fs'(filename := (if full \<and> err \<noteq> None then NoSpace out else Regular out)))))"

section \<open>The driver\<close>

text \<open>
  A run of \<open>main\<close>: the texts printed in order, how the run ended (\<open>main\<close> returned,
  \<open>sys.exit\<close> was called, or an exception left \<open>main\<close> uncaught), and the file system
  afterwards. The interpreter exits with status 1 on an uncaught exception.
\<close>

datatype outcome = Returned | SystemExit int | Uncaught pyexc

record run =
  printed :: "string list"
  result :: outcome
  files :: filesystem

definition exit_status :: "outcome \<Rightarrow> int" where
  "exit_status r = (case r of Returned \<Rightarrow> 0 | SystemExit n \<Rightarrow> n | Uncaught e \<Rightarrow> 1)"

text \<open>\<open>xs[i]\<close> on a list: a negative index counts from the end.\<close>

definition py_index :: "'a list \<Rightarrow> int \<Rightarrow> pyexc + 'a" where
  "py_index xs i =
     (let j = (if i < 0 then int (length xs) + i else i)
      in if 0 \<le> j \<and> j < int (length xs) then Inr (xs ! nat j)
         else Inl (IndexError ''list index out of range''))"

text \<open>The handler \<open>except (FileNotFoundError, ValueError) as e\<close> around the body of
  \<open>main\<close>; every other exception passes through it.\<close>

definition handle_error :: "string list \<Rightarrow> pyexc \<Rightarrow> filesystem \<Rightarrow> run" where
  "handle_error out e fs =
     (case e of
        FileNotFoundError msg \<Rightarrow>
          \<lparr>printed = out @ [''Error: '' @ msg], result = SystemExit 1, files = fs\<rparr>
      | ValueError msg \<Rightarrow>
          \<lparr>printed = out @ [''Error: '' @ msg], result = SystemExit 1, files = fs\<rparr>
      | _ \<Rightarrow> \<lparr>printed = out, result = Uncaught e, files = fs\<rparr>)"

definition main :: "string list \<Rightarrow> filesystem \<Rightarrow> run" where
  "main argv fs =
     (if length argv \<noteq> 3 then
        \<lparr>printed = [''Usage: python number_sorter.py <input_file> <output_file>''],
         result = SystemExit 1, files = fs\<rparr>
      else
        let input_file = argv ! 1;
            output_file = argv ! 2;
            out1 = [''Reading numbers from '' @ input_file @ ''...'']
        in case read_numbers_from_file fs input_file of
             Inl e \<Rightarrow> handle_error out1 e fs
           | Inr numbers \<Rightarrow>
               (let out2 = out1 @ [''Found '' @ str_int (int (length numbers)) @ '' numbers'',
                                   ''Sorting numbers...''];
                    sorted_numbers = sort_numbers numbers;
                    out3 = out2 @ [''Writing sorted numbers to '' @ output_file @ ''...'']
                in case write_numbers_to_file sorted_numbers output_file fs of
                     (Some e, fs') \<Rightarrow> handle_error out3 e fs'
                   | (None, fs') \<Rightarrow>
                       (let out4 = out3 @ [''Sorting completed successfully!'']
                        in case py_index sorted_numbers 0 of
                             Inl e \<Rightarrow> handle_error out4 e fs'
                           | Inr smallest \<Rightarrow>
                               (let out5 = out4 @ [''Smallest number: '' @ float_repr smallest]
                                in case py_index sorted_numbers (- 1) of
                                     Inl e \<Rightarrow> handle_error out5 e fs'
                                   | Inr largest \<Rightarrow>
                                       \<lparr>printed =
                                          out5 @ [''Largest number: '' @ float_repr largest],
                                        result = Returned, files = fs'\<rparr>))))"

section \<open>Properties of the order on floats\<close>

lemma py_le_trans: "py_le x y \<Longrightarrow> py_le y z \<Longrightarrow> py_le x z"
  by (cases x; cases y; cases z) auto

lemma py_lt_trans: "py_lt x y \<Longrightarrow> py_lt y z \<Longrightarrow> py_lt x z"
  by (cases x; cases y; cases z) auto

lemma py_lt_asym: "py_lt x y \<Longrightarrow> \<not> py_lt y x"
  by (cases x; cases y) auto


lemma not_lt_py_le: "x \<noteq> NaN \<Longrightarrow> y \<noteq> NaN \<Longrightarrow> \<not> py_lt y x \<Longrightarrow> py_le x y"
  by (cases x; cases y) auto

section \<open>Properties of the sorter\<close>

lemma mset_insert_sorted: "mset (insert_sorted x ys) = add_mset x (mset ys)"
  by (induction ys) auto

lemma mset_foldl_insert:
  "mset (foldl (\<lambda>acc x. insert_sorted x acc) acc xs) = mset acc + mset xs"
  by (induction xs arbitrary: acc) (auto simp: mset_insert_sorted)

lemma mset_py_sorted: "mset (py_sorted xs) = mset xs"
  by (simp add: py_sorted_def mset_foldl_insert)

lemma set_insert_sorted: "set (insert_sorted x ys) = insert x (set ys)"
  by (induction ys) auto

lemma set_py_sorted: "set (py_sorted xs) = set xs"
  by (metis mset_py_sorted set_mset_mset)

lemma length_py_sorted: "length (py_sorted xs) = length xs"
  by (metis mset_py_sorted size_mset)

text \<open>What every result of the sort satisfies, with or without NaN: no element is
  smaller than an element before it.\<close>

lemma no_descent_insert_sorted:
  "sorted_wrt (\<lambda>a b. \<not> py_lt b a) ys \<Longrightarrow>
   sorted_wrt (\<lambda>a b. \<not> py_lt b a) (insert_sorted x ys)"
proof (induction ys)
  case Nil
  then show ?case by simp
next
  case (Cons y ys)
  show ?case
  proof (cases "py_lt x y")
    case True
    have "\<not> py_lt z x" if "z \<in> set ys" for z
    proof
      assume "py_lt z x"
      then have "py_lt z y" using True by (rule py_lt_trans)
      with Cons.prems that show False by auto
    qed
    with True Cons.prems show ?thesis by (auto dest: py_lt_asym)
  next
    case False
    with Cons show ?thesis by (auto simp: set_insert_sorted)
  qed
qed

lemma no_descent_foldl:
  "sorted_wrt (\<lambda>a b. \<not> py_lt b a) acc \<Longrightarrow>
   sorted_wrt (\<lambda>a b. \<not> py_lt b a) (foldl (\<lambda>acc x. insert_sorted x acc) acc xs)"
  by (induction xs arbitrary: acc) (auto simp: no_descent_insert_sorted)

lemma no_descent_py_sorted: "sorted_wrt (\<lambda>a b. \<not> py_lt b a) (py_sorted xs)"
  unfolding py_sorted_def by (rule no_descent_foldl) simp




lemma adjacent_le_sorted_wrt: "adjacent_le xs = sorted_wrt py_le xs"
proof (induction xs rule: adjacent_le.induct)
  case (1 a b xs)
  then show ?case by (auto intro: py_le_trans)
qed simp_all


lemma no_descent_sorted_wrt_le:
  "NaN \<notin> set xs \<Longrightarrow> sorted_wrt (\<lambda>a b. \<not> py_lt b a) xs \<Longrightarrow> sorted_wrt py_le xs"
  by (erule sorted_wrt_mono_rel [rotated]) (auto intro: not_lt_py_le)

text \<open>
  C1, as amended. For every list of floats none of which is NaN, \<open>sort_numbers\<close> returns
  a list with the same multiset of values and the same length, in non-descending order
  (every adjacent pair \<open>(a, b)\<close> satisfies \<open>a <= b\<close>); the empty list gives the empty
  list and a one-element list is returned unchanged.
\<close>

theorem sort_numbers_sorted_permutation:
  "NaN \<notin> set xs \<Longrightarrow>
     mset (sort_numbers xs) = mset xs \<and> length (sort_numbers xs) = length xs \<and>
     adjacent_le (sort_numbers xs) \<and> sort_numbers [] = [] \<and> sort_numbers [x] = [x]"
proof -
  assume nn: "NaN \<notin> set xs"
  have "sorted_wrt py_le (py_sorted xs)"
    using nn by (intro no_descent_sorted_wrt_le no_descent_py_sorted) (simp add: set_py_sorted)
  then have "adjacent_le (sort_numbers xs)"
    by (simp add: adjacent_le_sorted_wrt sort_numbers_def)
  then show ?thesis
    by (simp add: sort_numbers_def mset_py_sorted length_py_sorted) (simp add: py_sorted_def)
qed

text \<open>A run of C1's theorem: 3.0, 1.0, -2.5, 1.0, inf.\<close>

theorem sort_numbers_sorted_permutation_witness:
  "NaN \<notin> set [Finite False 6755399441055744 (- 51), Finite False 4503599627370496 (- 52),
              Finite True 5629499534213120 (- 51), Finite False 4503599627370496 (- 52),
              Infinity False] \<and>
   sort_numbers [Finite False 6755399441055744 (- 51), Finite False 4503599627370496 (- 52),
              Finite True 5629499534213120 (- 51), Finite False 4503599627370496 (- 52),
              Infinity False]
     = [Finite True 5629499534213120 (- 51), Finite False 4503599627370496 (- 52),
        Finite False 4503599627370496 (- 52), Finite False 6755399441055744 (- 51),
        Infinity False] \<and>
   adjacent_le (sort_numbers [Finite False 6755399441055744 (- 51),
              Finite False 4503599627370496 (- 52), Finite True 5629499534213120 (- 51),
              Finite False 4503599627370496 (- 52), Infinity False])"
  using sort_numbers_sorted_permutation
    [of "[Finite False 6755399441055744 (- 51), Finite False 4503599627370496 (- 52),
          Finite True 5629499534213120 (- 51), Finite False 4503599627370496 (- 52),
          Infinity False]"]
  by (simp add: sort_numbers_def py_sorted_def float_value_def)

text \<open>
  C1 as stated fails on a list with a NaN, which the reader returns for the line
  \<open>nan\<close>: the result for 1.0, nan has an adjacent pair that does not satisfy
  \<open>a <= b\<close>, as has every other arrangement of the two values.
\<close>

theorem sort_numbers_nan_counterexample:
  "\<not> adjacent_le (sort_numbers [Finite False 4503599627370496 (- 52), NaN]) \<and>
   \<not> adjacent_le [NaN, Finite False 4503599627370496 (- 52)]"
  by (simp add: sort_numbers_def py_sorted_def)




section \<open>Properties of the reader\<close>

lemma digit_char_values:
  "digit_char 0 = CHR ''0''" "digit_char 1 = CHR ''1''" "digit_char 2 = CHR ''2''"
  "digit_char 3 = CHR ''3''" "digit_char 4 = CHR ''4''" "digit_char 5 = CHR ''5''"
  "digit_char 6 = CHR ''6''" "digit_char 7 = CHR ''7''" "digit_char 8 = CHR ''8''"
  "digit_char 9 = CHR ''9''"
  by code_simp+


lemma read_loop_all_numbers:
  "list_all (\<lambda>l. py_float l \<noteq> None) (filter (\<lambda>l. l \<noteq> []) (map strip ls)) \<Longrightarrow>
   read_loop n ls acc = Inr (acc @ map (the \<circ> py_float) (filter (\<lambda>l. l \<noteq> []) (map strip ls)))"
proof (induction ls arbitrary: n acc)
  case Nil
  then show ?case by simp
next
  case (Cons l ls)
  show ?case
  proof (cases "strip l = []")
    case True
    with Cons show ?thesis by simp
  next
    case False
    with Cons.prems obtain v where v: "py_float (strip l) = Some v" by auto
    from Cons.prems False
    have "list_all (\<lambda>l. py_float l \<noteq> None) (filter (\<lambda>l. l \<noteq> []) (map strip ls))" by simp
    from Cons.IH [OF this, of "Suc n" "acc @ [v]"] False v show ?thesis by simp
  qed
qed

lemma read_loop_some_bad:
  "\<not> list_all (\<lambda>l. py_float l \<noteq> None) (filter (\<lambda>l. l \<noteq> []) (map strip ls)) \<Longrightarrow>
   \<exists>e. read_loop n ls acc = Inl e"
proof (induction ls arbitrary: n acc)
  case Nil
  then show ?case by simp
next
  case (Cons l ls)
  show ?case
  proof (cases "strip l = []")
    case True
    with Cons show ?thesis by simp
  next
    case False
    show ?thesis
    proof (cases "py_float (strip l)")
      case None
      with False show ?thesis by simp
    next
      case (Some v)
      with Cons.prems False
      have "\<not> list_all (\<lambda>l. py_float l \<noteq> None) (filter (\<lambda>l. l \<noteq> []) (map strip ls))"
        by simp
      from Cons.IH [OF this, of "Suc n" "acc @ [v]"] False Some show ?thesis by simp
    qed
  qed
qed

lemma map_Some_eq_iff:
  "map f xs = map Some ys \<longleftrightarrow> list_all (\<lambda>x. f x \<noteq> None) xs \<and> ys = map (the \<circ> f) xs"
proof (induction xs arbitrary: ys)
  case Nil
  then show ?case by auto
next
  case (Cons x xs)
  show ?case
  proof (cases ys)
    case Nil
    then show ?thesis by simp
  next
    case (Cons y ys')
    with Cons.IH [of ys'] show ?thesis by auto
  qed
qed

lemma read_loop_Inr_iff:
  "read_loop n ls [] = Inr numbers \<longleftrightarrow>
     map py_float (filter (\<lambda>l. l \<noteq> []) (map strip ls)) = map Some numbers"
proof (cases "list_all (\<lambda>l. py_float l \<noteq> None) (filter (\<lambda>l. l \<noteq> []) (map strip ls))")
  case True
  from read_loop_all_numbers [OF this, of n "[]"] True show ?thesis
    by (auto simp: map_Some_eq_iff)
next
  case False
  from read_loop_some_bad [OF this, of n "[]"] False show ?thesis
    by (auto simp: map_Some_eq_iff)
qed


lemma read_loop_first_bad:
  "filter (\<lambda>(k, l). l \<noteq> [] \<and> py_float l = None) (zip [n..<n + length ls] (map strip ls))
     = (k, l) # others \<Longrightarrow>
   read_loop n ls acc = Inl (ValueError (invalid_number_message l k))"
proof (induction ls arbitrary: n acc)
  case Nil
  then show ?case by simp
next
  case (Cons x xs)
  let ?bad = "\<lambda>(k, l). l \<noteq> [] \<and> py_float l = None"
  have upt: "[n..<n + length (x # xs)] = n # [Suc n..<Suc n + length xs]"
    by (subst upt_rec) simp
  from Cons.prems have eq:
    "filter ?bad ((n, strip x) # zip [Suc n..<Suc n + length xs] (map strip xs)) = (k, l) # others"
    unfolding upt by (simp only: list.map zip_Cons_Cons)
  show ?case
  proof (cases "strip x \<noteq> [] \<and> py_float (strip x) = None")
    case True
    with eq have "k = n" "l = strip x" by (simp_all del: upt_Suc)
    with True show ?thesis by simp
  next
    case False
    with eq have "filter ?bad (zip [Suc n..<Suc n + length xs] (map strip xs)) = (k, l) # others"
      by (simp del: upt_Suc add_Suc)
    note IH = Cons.IH [OF this]
    show ?thesis
    proof (cases "strip x = []")
      case True
      then show ?thesis by (simp add: IH)
    next
      case nonblank: False
      with False obtain v where "py_float (strip x) = Some v" by auto
      with nonblank show ?thesis by (simp add: IH)
    qed
  qed
qed

lemma bad_lines_nth:
  assumes "bad_lines content = (k, l) # others"
  shows "1 \<le> k \<and> k \<le> length (stripped_lines content) \<and> l = stripped_lines content ! (k - 1) \<and>
         l \<noteq> [] \<and> py_float l = None"
proof -
  let ?ls = "stripped_lines content"
  from assms have mem: "(k, l) \<in> set (filter (\<lambda>(k, l). l \<noteq> [] \<and> py_float l = None)
      (zip [1..<Suc (length ?ls)] ?ls))"
    by (simp add: bad_lines_def)
  then have bad: "l \<noteq> [] \<and> py_float l = None" by simp
  from mem have "(k, l) \<in> set (zip [1..<Suc (length ?ls)] ?ls)" by simp
  then obtain i where i: "i < length ?ls" "[1..<Suc (length ?ls)] ! i = k" "?ls ! i = l"
    by (auto simp: set_zip simp del: upt_Suc)
  from i(1,2) have "k = Suc i" by (simp del: upt_Suc)
  with i bad show ?thesis by simp
qed

text \<open>
  C3. For a file that can be opened, \<open>read_numbers_from_file\<close> returns a list of
  numbers exactly when every non-blank line (non-empty once its surrounding whitespace
  is removed) reads as a number, and then the list has one value per non-blank line,
  the value of that line, in the order of the file; blank lines are skipped.
\<close>

theorem read_numbers_one_per_nonblank_line:
  "open_read fs filename = Inr content \<Longrightarrow>
     (read_numbers_from_file fs filename = Inr numbers) =
       (map py_float (nonblank_lines content) = map Some numbers) \<and>
     (read_numbers_from_file fs filename = Inr numbers \<longrightarrow>
        length numbers = length (nonblank_lines content))"
proof -
  assume "open_read fs filename = Inr content"
  then have "(read_numbers_from_file fs filename = Inr numbers) =
       (map py_float (nonblank_lines content) = map Some numbers)"
    by (simp add: read_numbers_from_file_def nonblank_lines_def stripped_lines_def
        read_loop_Inr_iff)
  moreover have "length numbers = length (nonblank_lines content)"
    if "map py_float (nonblank_lines content) = map Some numbers"
    using that by (metis length_map)
  ultimately show ?thesis by blast
qed

lemma scenario_blank_lines_open:
  "open_read ((\<lambda>p. Absent)(''numbers.txt'' := Regular ''10\<newline>\<newline>20\<newline>   \<newline>30\<newline>''))
     ''numbers.txt'' = Inr ''10\<newline>\<newline>20\<newline>   \<newline>30\<newline>''"
  by (simp add: open_read_def)

lemma scenario_blank_lines_values:
  "nonblank_lines ''10\<newline>\<newline>20\<newline>   \<newline>30\<newline>'' = [''10'', ''20'', ''30''] \<and>
   map py_float [''10'', ''20'', ''30''] =
     map Some [Finite False 5629499534213120 (- 49), Finite False 5629499534213120 (- 48),
               Finite False 8444249301319680 (- 48)]"
  by code_simp

text \<open>A run of C3's theorem, the scenario of the specification: the lines 10, empty,
  20, three spaces, 30 give 10.0, 20.0, 30.0.\<close>

theorem read_numbers_one_per_nonblank_line_witness:
  "open_read ((\<lambda>p. Absent)(''numbers.txt'' := Regular ''10\<newline>\<newline>20\<newline>   \<newline>30\<newline>''))
     ''numbers.txt'' = Inr ''10\<newline>\<newline>20\<newline>   \<newline>30\<newline>'' \<and>
   nonblank_lines ''10\<newline>\<newline>20\<newline>   \<newline>30\<newline>'' = [''10'', ''20'', ''30''] \<and>
   read_numbers_from_file
     ((\<lambda>p. Absent)(''numbers.txt'' := Regular ''10\<newline>\<newline>20\<newline>   \<newline>30\<newline>''))
     ''numbers.txt''
     = Inr [Finite False 5629499534213120 (- 49), Finite False 5629499534213120 (- 48),
            Finite False 8444249301319680 (- 48)]"
  using read_numbers_one_per_nonblank_line [OF scenario_blank_lines_open,
      of "[Finite False 5629499534213120 (- 49), Finite False 5629499534213120 (- 48),
           Finite False 8444249301319680 (- 48)]"]
    scenario_blank_lines_open scenario_blank_lines_values
  by simp

section \<open>Properties of the driver\<close>

lemma main_read_error:
  "read_numbers_from_file fs input_file = Inl e \<Longrightarrow>
   main [prog, input_file, output_file] fs =
     handle_error [''Reading numbers from '' @ input_file @ ''...''] e fs"
  by (simp add: main_def)

lemma main_write_error:
  "read_numbers_from_file fs input_file = Inr numbers \<Longrightarrow>
   open_write fs output_file = Inl e \<Longrightarrow>
   main [prog, input_file, output_file] fs =
     handle_error [''Reading numbers from '' @ input_file @ ''...'',
                   ''Found '' @ str_int (int (length numbers)) @ '' numbers'',
                   ''Sorting numbers...'',
                   ''Writing sorted numbers to '' @ output_file @ ''...''] e fs"
  by (simp add: main_def write_numbers_to_file_def)

text \<open>
  C4. When some non-blank line of the input is not a number, \<open>read_numbers_from_file\<close>
  fails with the \<open>ValueError\<close> whose message quotes the text of the first such line,
  without its surrounding whitespace, and gives its line number, counted from 1; it
  returns no numbers. The driver then prints that message after \<open>Error:\<close>, exits with
  status 1 and leaves every file as it was.
\<close>

theorem read_numbers_invalid_line:
  "open_read fs input_file = Inr content \<Longrightarrow> bad_lines content = (k, l) # others \<Longrightarrow>
     read_numbers_from_file fs input_file = Inl (ValueError (invalid_number_message l k)) \<and>
     1 \<le> k \<and> l = stripped_lines content ! (k - 1) \<and>
     main [prog, input_file, output_file] fs =
       \<lparr>printed = [''Reading numbers from '' @ input_file @ ''...'',
                   ''Error: '' @ invalid_number_message l k],
        result = SystemExit 1, files = fs\<rparr>"
proof -
  assume opened: "open_read fs input_file = Inr content"
    and bad: "bad_lines content = (k, l) # others"
  from bad have "filter (\<lambda>(k, l). l \<noteq> [] \<and> py_float l = None)
      (zip [1..<1 + length (file_lines (universal_newlines content))]
        (map strip (file_lines (universal_newlines content)))) = (k, l) # others"
    by (simp add: bad_lines_def stripped_lines_def del: upt_Suc)
  from read_loop_first_bad [OF this] opened
  have failed: "read_numbers_from_file fs input_file = Inl (ValueError (invalid_number_message l k))"
    by (simp add: read_numbers_from_file_def)
  from main_read_error [OF failed] bad_lines_nth [OF bad] failed
  show ?thesis by (simp add: handle_error_def)
qed

lemma scenario_invalid_open:
  "open_read ((\<lambda>p. Absent)(''numbers.txt'' := Regular ''10\<newline>abc\<newline>20\<newline>''))
     ''numbers.txt'' = Inr ''10\<newline>abc\<newline>20\<newline>''"
  by (simp add: open_read_def)

lemma scenario_invalid_bad_lines:
  "bad_lines ''10\<newline>abc\<newline>20\<newline>'' = (2, ''abc'') # [] \<and>
   invalid_number_message ''abc'' 2 = ''Invalid number '' @ [CHR 0x27] @ ''abc'' @ [CHR 0x27] @ '' on line 2''"
  by code_simp

text \<open>A run of C4's theorem, the scenario of the specification: the lines 10, abc,
  20.\<close>

theorem read_numbers_invalid_line_witness:
  "read_numbers_from_file ((\<lambda>p. Absent)(''numbers.txt'' := Regular ''10\<newline>abc\<newline>20\<newline>''))
     ''numbers.txt''
     = Inl (ValueError (''Invalid number '' @ [CHR 0x27] @ ''abc'' @ [CHR 0x27] @ '' on line 2'')) \<and>
   main [''number_sorter.py'', ''numbers.txt'', ''sorted.txt'']
     ((\<lambda>p. Absent)(''numbers.txt'' := Regular ''10\<newline>abc\<newline>20\<newline>''))
     = \<lparr>printed = [''Reading numbers from numbers.txt...'',
                   ''Error: Invalid number '' @ [CHR 0x27] @ ''abc'' @ [CHR 0x27] @ '' on line 2''],
        result = SystemExit 1,
        files = (\<lambda>p. Absent)(''numbers.txt'' := Regular ''10\<newline>abc\<newline>20\<newline>'')\<rparr>"
  using read_numbers_invalid_line [OF scenario_invalid_open,
      of 2 "''abc''" "[]" "''number_sorter.py''" "''sorted.txt''"]
    scenario_invalid_bad_lines
  by simp


section \<open>Properties of the writer\<close>

lemma str_digits_small: "n < 10 \<Longrightarrow> str_digits n = [digit_char n]"
  by (simp add: str_digits.simps)

lemma str_digits_zero_one: "str_digits 0 = ''0''" "str_digits 1 = ''1''"
  by (simp_all add: str_digits_small digit_char_values)

lemma line_text_total: "\<exists>t. line_text x = Inr t"
  by (cases x) (simp_all add: line_text_def py_int_def is_integer_def Let_def)

lemma line_text_nonempty: "line_text x = Inr t \<Longrightarrow> t \<noteq> []"
  by (auto simp: line_text_def split: if_splits sum.splits)

lemma write_loop_texts:
  "\<exists>texts. list_all2 (\<lambda>x t. line_text x = Inr t) xs texts \<and>
     write_loop False xs out = (None, out @ concat texts)"
proof (induction xs arbitrary: out)
  case Nil
  then show ?case by simp
next
  case (Cons x xs)
  obtain t where t: "line_text x = Inr t" using line_text_total by blast
  from Cons.IH [of "out @ t"] obtain texts where
    "list_all2 (\<lambda>x t. line_text x = Inr t) xs texts"
    "write_loop False xs (out @ t) = (None, (out @ t) @ concat texts)" by blast
  with t have "list_all2 (\<lambda>x t. line_text x = Inr t) (x # xs) (t # texts) \<and>
     write_loop False (x # xs) out = (None, out @ concat (t # texts))"
    by (simp add: file_write_def)
  then show ?case by blast
qed

lemma write_loop_full:
  "write_loop True xs out =
     (if xs = [] then (None, out)
      else (Some (OSError ''[Errno 28] No space left on device''), out))"
proof (cases xs)
  case Nil
  then show ?thesis by simp
next
  case (Cons x rest)
  obtain t where t: "line_text x = Inr t" using line_text_total by blast
  with line_text_nonempty [OF t] Cons show ?thesis by (simp add: file_write_def)
qed

lemma py_index_first: "xs \<noteq> [] \<Longrightarrow> py_index xs 0 = Inr (hd xs)"
  by (cases xs) (simp_all add: py_index_def)

lemma py_index_last: "xs \<noteq> [] \<Longrightarrow> py_index xs (- 1) = Inr (last xs)"
  by (simp add: py_index_def last_conv_nth nat_diff_distrib' Let_def)

lemma py_index_empty: "py_index [] i = Inl (IndexError ''list index out of range'')"
  by (simp add: py_index_def)

lemma sort_numbers_Nil: "sort_numbers [] = []"
  by (simp add: sort_numbers_def py_sorted_def)

lemma sort_numbers_empty_iff: "sort_numbers numbers = [] \<longleftrightarrow> numbers = []"
  by (metis length_0_conv length_py_sorted sort_numbers_def)

text \<open>When the writer fails: at \<open>open\<close>, and then no file is changed, or at writing
  to a device with no space left, and then the output file is left empty.\<close>

lemma writer_failure_iff:
  "write_numbers_to_file xs path fs = (Some e, fs') \<longleftrightarrow>
     (open_write fs path = Inl e \<and> fs' = fs) \<or>
     (\<exists>fs1. open_write fs path = Inr fs1 \<and> on_full_device (fs1 path) \<and> xs \<noteq> [] \<and>
        e = OSError ''[Errno 28] No space left on device'' \<and> fs' = fs1(path := NoSpace []))"
proof (cases "open_write fs path")
  case (Inl e')
  then show ?thesis by (auto simp: write_numbers_to_file_def)
next
  case (Inr fs1)
  show ?thesis
  proof (cases "on_full_device (fs1 path)")
    case True
    with Inr show ?thesis
      by (auto simp: write_numbers_to_file_def write_loop_full Let_def)
  next
    case False
    from write_loop_texts [of xs "[]"] obtain texts where
      "write_loop False xs [] = (None, concat texts)" by auto
    with Inr False show ?thesis by (simp add: write_numbers_to_file_def Let_def)
  qed
qed

lemma open_write_error_kinds: "open_write fs path = Inl e \<Longrightarrow> os_error e"
  by (auto simp: open_write_def os_error_def split: node.splits)

lemma main_writer_failed:
  "read_numbers_from_file fs input_file = Inr numbers \<Longrightarrow>
   write_numbers_to_file (sort_numbers numbers) output_file fs = (Some e, fs') \<Longrightarrow>
   main [prog, input_file, output_file] fs =
     handle_error [''Reading numbers from '' @ input_file @ ''...'',
                   ''Found '' @ str_int (int (length numbers)) @ '' numbers'',
                   ''Sorting numbers...'',
                   ''Writing sorted numbers to '' @ output_file @ ''...''] e fs'"
  by (simp add: main_def)

text \<open>What \<open>main\<close> does once the input is read and the writer has not failed.\<close>

lemma main_written:
  assumes "read_numbers_from_file fs input_file = Inr numbers"
    and "open_write fs output_file = Inr fs1"
    and "\<not> on_full_device (fs1 output_file) \<or> numbers = []"
  shows "\<exists>texts. list_all2 (\<lambda>x t. line_text x = Inr t) (sort_numbers numbers) texts \<and>
     files (main [prog, input_file, output_file] fs) = fs1(output_file := Regular (concat texts)) \<and>
     result (main [prog, input_file, output_file] fs) =
       (if numbers = [] then Uncaught (IndexError ''list index out of range'') else Returned)"
proof (cases "numbers = []")
  case True
  with assms(1,2) have
    "files (main [prog, input_file, output_file] fs) = fs1(output_file := Regular (concat [])) \<and>
     result (main [prog, input_file, output_file] fs) =
       Uncaught (IndexError ''list index out of range'')"
    by (simp add: main_def write_numbers_to_file_def py_index_empty handle_error_def
        sort_numbers_Nil Let_def)
  moreover have "list_all2 (\<lambda>x t. line_text x = Inr t) (sort_numbers numbers) []"
    using True by (simp add: sort_numbers_Nil)
  ultimately show ?thesis using True by auto
next
  case False
  with assms(3) have full: "\<not> on_full_device (fs1 output_file)" by simp
  from write_loop_texts [of "sort_numbers numbers" "[]"] obtain texts where
    texts: "list_all2 (\<lambda>x t. line_text x = Inr t) (sort_numbers numbers) texts"
    and loop: "write_loop False (sort_numbers numbers) [] = (None, concat texts)" by auto
  from False have "sort_numbers numbers \<noteq> []" by (simp add: sort_numbers_empty_iff)
  with assms(1,2) full loop False have
    "files (main [prog, input_file, output_file] fs) = fs1(output_file := Regular (concat texts)) \<and>
     result (main [prog, input_file, output_file] fs) = Returned"
    by (simp add: main_def write_numbers_to_file_def py_index_first py_index_last Let_def)
  with texts False show ?thesis by auto
qed

text \<open>
  C6, on the code. With an input that has no non-blank line, \<open>main\<close> creates the
  output file empty, prints that sorting completed, and then reads the first element
  of the empty sorted list: the \<open>IndexError\<close> is not caught and leaves \<open>main\<close>.
\<close>

theorem main_empty_input_index_error:
  "read_numbers_from_file fs input_file = Inr [] \<Longrightarrow> open_write fs output_file = Inr fs1 \<Longrightarrow>
   main [prog, input_file, output_file] fs =
     \<lparr>printed = [''Reading numbers from '' @ input_file @ ''...'', ''Found 0 numbers'',
                 ''Sorting numbers...'', ''Writing sorted numbers to '' @ output_file @ ''...'',
                 ''Sorting completed successfully!''],
      result = Uncaught (IndexError ''list index out of range''),
      files = fs1(output_file := Regular [])\<rparr>"
  by (simp add: main_def sort_numbers_Nil write_numbers_to_file_def py_index_empty
      handle_error_def str_int_def str_digits_zero_one Let_def)

lemma scenario_empty_read:
  "read_numbers_from_file ((\<lambda>p. Absent)(''numbers.txt'' := Regular (''\<newline>'' @ ''   '' @ ''\<newline>'')))
     ''numbers.txt'' = Inr []"
  by code_simp

lemma scenario_empty_write:
  "open_write ((\<lambda>p. Absent)(''numbers.txt'' := Regular (''\<newline>'' @ ''   '' @ ''\<newline>''))) ''sorted.txt''
   = Inr ((\<lambda>p. Absent)(''numbers.txt'' := Regular (''\<newline>'' @ ''   '' @ ''\<newline>''),
                         ''sorted.txt'' := Regular []))"
  by (simp add: open_write_def)

text \<open>A run of C6's theorem: an input of an empty line and a line of three spaces.\<close>

theorem main_empty_input_index_error_witness:
  "result (main [''number_sorter.py'', ''numbers.txt'', ''sorted.txt'']
     ((\<lambda>p. Absent)(''numbers.txt'' := Regular (''\<newline>'' @ ''   '' @ ''\<newline>''))))
     = Uncaught (IndexError ''list index out of range'') \<and>
   exit_status (result (main [''number_sorter.py'', ''numbers.txt'', ''sorted.txt'']
     ((\<lambda>p. Absent)(''numbers.txt'' := Regular (''\<newline>'' @ ''   '' @ ''\<newline>''))))) = 1 \<and>
   files (main [''number_sorter.py'', ''numbers.txt'', ''sorted.txt'']
     ((\<lambda>p. Absent)(''numbers.txt'' := Regular (''\<newline>'' @ ''   '' @ ''\<newline>'')))) ''sorted.txt''
     = Regular []"
  using main_empty_input_index_error [OF scenario_empty_read scenario_empty_write,
      of "''number_sorter.py''"]
  by (simp add: exit_status_def)

text \<open>
  C7, as amended. When the output destination cannot be created or written (missing
  parent directory, permission, a directory in its place, another refusal of \<open>open\<close>,
  no space left for the text), the writer fails with an \<open>OSError\<close>; this happens exactly
  when \<open>open\<close> fails, and then no file is changed, or when there is a number to write
  and no space for it, and then the output file is left empty. The driver catches
  the \<open>FileNotFoundError\<close> of a missing parent directory, prints its message after
  \<open>Error:\<close> and exits with status 1. Every other \<open>OSError\<close> of the writer is not
  caught: nothing is printed for it and it leaves \<open>main\<close>, which ends the process
  with status 1.
\<close>

theorem write_failure_handling:
  "read_numbers_from_file fs input_file = Inr numbers \<Longrightarrow>
   write_numbers_to_file (sort_numbers numbers) output_file fs = (Some e, fs') \<Longrightarrow>
     os_error e \<and>
     ((open_write fs output_file = Inl e \<and> fs' = fs) \<or>
      (\<exists>fs1. open_write fs output_file = Inr fs1 \<and> on_full_device (fs1 output_file) \<and>
         numbers \<noteq> [] \<and> e = OSError ''[Errno 28] No space left on device'' \<and>
         fs' = fs1(output_file := NoSpace []))) \<and>
     files (main [prog, input_file, output_file] fs) = fs' \<and>
     exit_status (result (main [prog, input_file, output_file] fs)) = 1 \<and>
     (case e of
        FileNotFoundError msg \<Rightarrow>
          result (main [prog, input_file, output_file] fs) = SystemExit 1 \<and>
          last (printed (main [prog, input_file, output_file] fs)) = ''Error: '' @ msg
      | _ \<Rightarrow>
          result (main [prog, input_file, output_file] fs) = Uncaught e \<and>
          last (printed (main [prog, input_file, output_file] fs))
            = ''Writing sorted numbers to '' @ output_file @ ''...'')"
proof -
  assume rd: "read_numbers_from_file fs input_file = Inr numbers"
    and wr: "write_numbers_to_file (sort_numbers numbers) output_file fs = (Some e, fs')"
  from wr have cases:
    "(open_write fs output_file = Inl e \<and> fs' = fs) \<or>
     (\<exists>fs1. open_write fs output_file = Inr fs1 \<and> on_full_device (fs1 output_file) \<and>
        numbers \<noteq> [] \<and> e = OSError ''[Errno 28] No space left on device'' \<and>
        fs' = fs1(output_file := NoSpace []))"
    by (simp add: writer_failure_iff sort_numbers_empty_iff)
  then have os: "os_error e"
    by (auto simp: os_error_def dest: open_write_error_kinds)
  from main_writer_failed [OF rd wr, of prog] os have
    "files (main [prog, input_file, output_file] fs) = fs' \<and>
     exit_status (result (main [prog, input_file, output_file] fs)) = 1 \<and>
     (case e of
        FileNotFoundError msg \<Rightarrow>
          result (main [prog, input_file, output_file] fs) = SystemExit 1 \<and>
          last (printed (main [prog, input_file, output_file] fs)) = ''Error: '' @ msg
      | _ \<Rightarrow>
          result (main [prog, input_file, output_file] fs) = Uncaught e \<and>
          last (printed (main [prog, input_file, output_file] fs))
            = ''Writing sorted numbers to '' @ output_file @ ''...'')"
    by (cases e) (simp_all add: handle_error_def exit_status_def os_error_def)
  with os cases show ?thesis by blast
qed

lemma scenario_one_number_read:
  "read_numbers_from_file ((\<lambda>p. Absent)(''numbers.txt'' := Regular ''10\<newline>'')) ''numbers.txt''
     = Inr [Finite False 5629499534213120 (- 49)]"
  by code_simp

lemma scenario_one_number_read_at:
  "fs ''numbers.txt'' = Regular ''10\<newline>'' \<Longrightarrow>
   read_numbers_from_file fs ''numbers.txt'' = Inr [Finite False 5629499534213120 (- 49)]"
  using scenario_one_number_read
  by (simp add: read_numbers_from_file_def open_read_def)

lemma scenario_path_repr:
  "str_repr ''sorted.txt'' = [CHR 0x27] @ ''sorted.txt'' @ [CHR 0x27]"
  "str_repr ''out/sorted.txt'' = [CHR 0x27] @ ''out/sorted.txt'' @ [CHR 0x27]"
  by code_simp+

lemma scenario_no_directory_writer:
  "write_numbers_to_file (sort_numbers [Finite False 5629499534213120 (- 49)]) ''out/sorted.txt''
     ((\<lambda>p. Absent)(''numbers.txt'' := Regular ''10\<newline>'', ''out/sorted.txt'' := NoParent))
   = (Some (FileNotFoundError
        (''[Errno 2] No such file or directory: '' @ [CHR 0x27] @ ''out/sorted.txt'' @ [CHR 0x27])),
      (\<lambda>p. Absent)(''numbers.txt'' := Regular ''10\<newline>'', ''out/sorted.txt'' := NoParent))"
  by (simp add: write_numbers_to_file_def open_write_def scenario_path_repr)

lemma scenario_full_device_writer:
  "write_numbers_to_file (sort_numbers [Finite False 5629499534213120 (- 49)]) ''sorted.txt''
     ((\<lambda>p. Absent)(''numbers.txt'' := Regular ''10\<newline>'', ''sorted.txt'' := NoSpace ''old''))
   = (Some (OSError ''[Errno 28] No space left on device''),
      (\<lambda>p. Absent)(''numbers.txt'' := Regular ''10\<newline>'', ''sorted.txt'' := NoSpace []))"
  by (simp add: write_numbers_to_file_def open_write_def on_full_device_def write_loop_full
      sort_numbers_empty_iff)

text \<open>Runs of C7's theorem: the directory of the output path does not exist, and the
  error is caught; the device of the output file has no space left, and the error is
  not caught and the output file is left empty.\<close>

theorem write_failure_handling_witness:
  "result (main [''number_sorter.py'', ''numbers.txt'', ''out/sorted.txt'']
      ((\<lambda>p. Absent)(''numbers.txt'' := Regular ''10\<newline>'', ''out/sorted.txt'' := NoParent)))
     = SystemExit 1 \<and>
   last (printed (main [''number_sorter.py'', ''numbers.txt'', ''out/sorted.txt'']
      ((\<lambda>p. Absent)(''numbers.txt'' := Regular ''10\<newline>'', ''out/sorted.txt'' := NoParent))))
     = ''Error: [Errno 2] No such file or directory: '' @ [CHR 0x27] @ ''out/sorted.txt'' @ [CHR 0x27] \<and>
   result (main [''number_sorter.py'', ''numbers.txt'', ''sorted.txt'']
      ((\<lambda>p. Absent)(''numbers.txt'' := Regular ''10\<newline>'', ''sorted.txt'' := NoSpace ''old'')))
     = Uncaught (OSError ''[Errno 28] No space left on device'') \<and>
   files (main [''number_sorter.py'', ''numbers.txt'', ''sorted.txt'']
      ((\<lambda>p. Absent)(''numbers.txt'' := Regular ''10\<newline>'', ''sorted.txt'' := NoSpace ''old'')))
      ''sorted.txt'' = NoSpace []"
  using
    write_failure_handling [OF scenario_one_number_read_at scenario_no_directory_writer,
      of "''number_sorter.py''"]
    write_failure_handling [OF scenario_one_number_read_at scenario_full_device_writer,
      of "''number_sorter.py''"]
  by simp

lemma scenario_denied_writer:
  "write_numbers_to_file (sort_numbers [Finite False 5629499534213120 (- 49)]) ''sorted.txt''
     ((\<lambda>p. Absent)(''numbers.txt'' := Regular ''10\<newline>'', ''sorted.txt'' := ReadOnly ''old''))
   = (Some (PermissionError
        (''[Errno 13] Permission denied: '' @ [CHR 0x27] @ ''sorted.txt'' @ [CHR 0x27])),
      (\<lambda>p. Absent)(''numbers.txt'' := Regular ''10\<newline>'', ''sorted.txt'' := ReadOnly ''old''))"
  by (simp add: write_numbers_to_file_def open_write_def scenario_path_repr)

text \<open>
  C7 as stated fails when the output file is read-only: the \<open>PermissionError\<close> of the
  writer is not caught by the driver, which prints no line starting with \<open>Error:\<close>.
\<close>

theorem write_failure_uncaught_counterexample:
  "result (main [''number_sorter.py'', ''numbers.txt'', ''sorted.txt'']
      ((\<lambda>p. Absent)(''numbers.txt'' := Regular ''10\<newline>'', ''sorted.txt'' := ReadOnly ''old'')))
     = Uncaught (PermissionError
         (''[Errno 13] Permission denied: '' @ [CHR 0x27] @ ''sorted.txt'' @ [CHR 0x27])) \<and>
   printed (main [''number_sorter.py'', ''numbers.txt'', ''sorted.txt'']
      ((\<lambda>p. Absent)(''numbers.txt'' := Regular ''10\<newline>'', ''sorted.txt'' := ReadOnly ''old'')))
     = [''Reading numbers from numbers.txt...'', ''Found 1 numbers'', ''Sorting numbers...'',
        ''Writing sorted numbers to sorted.txt...'']"
  using main_writer_failed [OF scenario_one_number_read_at scenario_denied_writer,
      of "''number_sorter.py''"]
  by (simp add: handle_error_def str_int_def str_digits_zero_one)

text \<open>
  C8, on the code. With an input that has no non-blank line and an output file that
  can be opened, \<open>main\<close> writes the empty output file and prints that sorting completed
  successfully, and the process then ends with status 1, not 0: the \<open>IndexError\<close> of
  the report of the smallest number leaves \<open>main\<close>.
\<close>

theorem exit_status_empty_input:
  "read_numbers_from_file fs input_file = Inr [] \<Longrightarrow> open_write fs output_file = Inr fs1 \<Longrightarrow>
     last (printed (main [prog, input_file, output_file] fs)) = ''Sorting completed successfully!'' \<and>
     files (main [prog, input_file, output_file] fs) output_file = Regular [] \<and>
     exit_status (result (main [prog, input_file, output_file] fs)) = 1"
  by (simp add: main_def sort_numbers_Nil write_numbers_to_file_def py_index_empty
      handle_error_def exit_status_def Let_def)

lemma scenario_empty_file_read:
  "read_numbers_from_file ((\<lambda>p. Absent)(''numbers.txt'' := Regular [])) ''numbers.txt'' = Inr []"
  by (simp add: read_numbers_from_file_def open_read_def)

lemma scenario_empty_file_write:
  "open_write ((\<lambda>p. Absent)(''numbers.txt'' := Regular [])) ''sorted.txt''
   = Inr ((\<lambda>p. Absent)(''numbers.txt'' := Regular [], ''sorted.txt'' := Regular []))"
  by (simp add: open_write_def)

text \<open>A run of C8's theorem: an empty input file.\<close>

theorem exit_status_empty_input_witness:
  "last (printed (main [''number_sorter.py'', ''numbers.txt'', ''sorted.txt'']
      ((\<lambda>p. Absent)(''numbers.txt'' := Regular []))))
     = ''Sorting completed successfully!'' \<and>
   exit_status (result (main [''number_sorter.py'', ''numbers.txt'', ''sorted.txt'']
      ((\<lambda>p. Absent)(''numbers.txt'' := Regular [])))) = 1"
  using exit_status_empty_input [OF scenario_empty_file_read scenario_empty_file_write,
      of "''number_sorter.py''"]
  by simp

text \<open>
  C10. \<open>float\<close> reads the lines inf, nan, Infinity, 1e5 and 1_000 as numbers, so
  \<open>read_numbers_from_file\<close> returns values for them; the values read and the sorted
  list can hold infinities and NaN, and infinities are written to the output file.
\<close>

theorem float_accepts_non_decimal_literals:
  "py_float ''inf'' = Some (Infinity False) \<and> py_float ''nan'' = Some NaN \<and>
   py_float ''Infinity'' = Some (Infinity False) \<and>
   py_float ''1e5'' = Some (Finite False 6871947673600000 (- 36)) \<and>
   py_float ''1_000'' = Some (Finite False 8796093022208000 (- 43)) \<and>
   read_numbers_from_file
     ((\<lambda>p. Absent)(''numbers.txt'' := Regular ''inf\<newline>nan\<newline>Infinity\<newline>1e5\<newline>1_000\<newline>''))
     ''numbers.txt''
     = Inr [Infinity False, NaN, Infinity False, Finite False 6871947673600000 (- 36),
            Finite False 8796093022208000 (- 43)] \<and>
   NaN \<in> set (sort_numbers [Infinity False, NaN, Infinity False,
            Finite False 6871947673600000 (- 36), Finite False 8796093022208000 (- 43)]) \<and>
   Infinity False \<in> set (sort_numbers [Infinity False, NaN, Infinity False,
            Finite False 6871947673600000 (- 36), Finite False 8796093022208000 (- 43)]) \<and>
   files (main [''number_sorter.py'', ''numbers.txt'', ''sorted.txt'']
      ((\<lambda>p. Absent)(''numbers.txt'' := Regular ''inf\<newline>Infinity\<newline>1e5\<newline>1_000\<newline>'')))
      ''sorted.txt''
     = Regular ''1000\<newline>100000\<newline>inf\<newline>inf\<newline>''"
  by code_simp

end
